theory Spec2Isabelle
  imports Complex_Main "HOL-Library.Word" "HOL-Library.Log_Nat"
begin

unbundle bit_operations_syntax

section \<open>Floating-point arithmetic of the volume conversions\<close>

text \<open>
  The backend converts between the percentage shown to the user and the server's native
  volume with \<^verbatim>\<open>double\<close> and \<^verbatim>\<open>float\<close> arithmetic. A finite floating-point value
  is modelled by the real number it denotes, and every operation by the exact result
  rounded to the format's precision (53 bits for \<^verbatim>\<open>double\<close>, 24 bits for
  \<^verbatim>\<open>float\<close>), ties to even, as IEEE 754 prescribes for the default rounding mode.
  Every operation is rounded to its own format, as on the usual 64-bit targets. The
  exponent range is not bounded: overflow to infinity, subnormal numbers and NaN are
  outside the model; the volumes and percentages of the backend are far from both ends.
\<close>

definition round_half_even :: "real \<Rightarrow> int" where
  "round_half_even y =
     (let f = \<lfloor>y\<rfloor>; d = y - of_int f
      in if d < 1 / 2 then f
         else if 1 / 2 < d then f + 1
         else if even f then f else f + 1)"

text \<open>The binary exponent \<open>e\<close> of a positive number: \<open>2\<^sup>e \<le> x < 2\<^sup>e\<^sup>+\<^sup>1\<close>.\<close>

definition binary_exponent :: "real \<Rightarrow> int" where
  "binary_exponent x =
     (if 1 \<le> x then bitlen \<lfloor>x\<rfloor> - 1 else - bitlen (\<lceil>1 / x\<rceil> - 1))"

definition round_to_precision :: "nat \<Rightarrow> real \<Rightarrow> real" where
  "round_to_precision p x =
     (if x = 0 then 0
      else let k = int p - 1 - binary_exponent \<bar>x\<bar>
           in of_int (round_half_even (x * 2 powi k)) / 2 powi k)"

definition to_double :: "real \<Rightarrow> real" where
  "to_double x = round_to_precision 53 x"

definition to_float :: "real \<Rightarrow> real" where
  "to_float x = round_to_precision 24 x"

definition double_add :: "real \<Rightarrow> real \<Rightarrow> real" where
  "double_add x y = to_double (x + y)"

definition double_sub :: "real \<Rightarrow> real \<Rightarrow> real" where
  "double_sub x y = to_double (x - y)"

definition double_mul :: "real \<Rightarrow> real \<Rightarrow> real" where
  "double_mul x y = to_double (x * y)"

definition double_div :: "real \<Rightarrow> real \<Rightarrow> real" where
  "double_div x y = to_double (x / y)"

definition float_mul :: "real \<Rightarrow> real \<Rightarrow> real" where
  "float_mul x y = to_float (x * y)"

definition float_div :: "real \<Rightarrow> real \<Rightarrow> real" where
  "float_div x y = to_float (x / y)"

text \<open>
  \<^verbatim>\<open>round\<close> and \<^verbatim>\<open>std::round\<close> of the C library: the nearest integer, halfway
  cases away from zero. The result is an integer-valued floating-point number.
\<close>

definition c_round :: "real \<Rightarrow> real" where
  "c_round x = (if 0 \<le> x then of_int \<lfloor>x + 1 / 2\<rfloor> else of_int \<lceil>x - 1 / 2\<rceil>)"

text \<open>
  The conversion of a floating-point value to an unsigned integer type drops the
  fractional part. When the truncated value does not fit the type, the behaviour of the
  C++ program is undefined: the model returns \<open>None\<close> there.
\<close>

definition truncate_real :: "real \<Rightarrow> int" where
  "truncate_real x = (if 0 \<le> x then \<lfloor>x\<rfloor> else \<lceil>x\<rceil>)"

definition to_unsigned :: "real \<Rightarrow> 'a::len word option" where
  "to_unsigned x =
     (let t = truncate_real x
      in if 0 \<le> t \<and> t < 2 ^ LENGTH('a) then Some (word_of_int t) else None)"

section \<open>The PulseAudio client library\<close>

text \<open>
  Constants, types and functions of libpulse that the backend uses
  (\<^verbatim>\<open>pulse/def.h\<close>, \<^verbatim>\<open>pulse/volume.h\<close>, \<^verbatim>\<open>pulse/sample.h\<close>). They belong to the
  library, not to the repository, and are written here as the library defines them.
\<close>

type_synonym pa_volume_t = "32 word"

definition PA_VOLUME_NORM :: pa_volume_t where
  "PA_VOLUME_NORM = 0x10000"

definition PA_VOLUME_MUTED :: pa_volume_t where
  "PA_VOLUME_MUTED = 0"

definition PA_VOLUME_MAX :: pa_volume_t where
  "PA_VOLUME_MAX = 0x7FFFFFFF"

definition PA_VOLUME_INVALID :: pa_volume_t where
  "PA_VOLUME_INVALID = 0xFFFFFFFF"

text \<open>
  \<^verbatim>\<open>PA_VOLUME_UI_MAX\<close> is \<^verbatim>\<open>pa_sw_volume_from_dB(+11.0)\<close>, the native volume of
  +11 dB: 65536 times the cube root of \<open>10\<^sup>1\<^sup>1\<^sup>/\<^sup>2\<^sup>0\<close>, rounded, which is 99957. The
  backend casts it to 16 bits, which gives 34421, and compares it with a percentage.
\<close>

definition PA_VOLUME_UI_MAX :: pa_volume_t where
  "PA_VOLUME_UI_MAX = 99957"

definition PA_CHANNELS_MAX :: nat where
  "PA_CHANNELS_MAX = 32"

text \<open>
  \<^verbatim>\<open>pa_cvolume\<close>: a channel count and an array of \<^verbatim>\<open>PA_CHANNELS_MAX\<close> volumes, of
  which the first \<open>channels\<close> are in use. The array is a list here; \<open>channel_values\<close>
  are the entries in use.
\<close>

record pa_cvolume =
  channels :: "8 word"
  values_cv :: "pa_volume_t list"

definition channel_values :: "pa_cvolume \<Rightarrow> pa_volume_t list" where
  "channel_values v = take (unat (channels v)) (values_cv v)"

definition pa_cvolume_init :: pa_cvolume where
  "pa_cvolume_init = \<lparr>channels = 0, values_cv = replicate PA_CHANNELS_MAX PA_VOLUME_INVALID\<rparr>"

definition pa_channels_valid :: "8 word \<Rightarrow> bool" where
  "pa_channels_valid c = (0 < c \<and> unat c \<le> PA_CHANNELS_MAX)"

definition pa_cvolume_valid :: "pa_cvolume \<Rightarrow> bool" where
  "pa_cvolume_valid v =
     (pa_channels_valid (channels v) \<and> list_all (\<lambda>x. x \<le> PA_VOLUME_MAX) (channel_values v))"

text \<open>
  \<^verbatim>\<open>pa_cvolume_avg\<close> adds the channels in a 64-bit sum, which cannot overflow for 32
  channels of 32 bits, and divides by the channel count.
\<close>

definition pa_cvolume_avg :: "pa_cvolume \<Rightarrow> pa_volume_t" where
  "pa_cvolume_avg a =
     (if \<not> pa_cvolume_valid a then PA_VOLUME_MUTED
      else word_of_nat (sum_list (map unat (channel_values a)) div unat (channels a)))"

datatype pa_context_state_t =
    PA_CONTEXT_UNCONNECTED
  | PA_CONTEXT_CONNECTING
  | PA_CONTEXT_AUTHORIZING
  | PA_CONTEXT_SETTING_NAME
  | PA_CONTEXT_READY
  | PA_CONTEXT_FAILED
  | PA_CONTEXT_TERMINATED

datatype pa_sink_state_t =
    PA_SINK_INVALID_STATE
  | PA_SINK_RUNNING
  | PA_SINK_IDLE
  | PA_SINK_SUSPENDED
  | PA_SINK_INIT
  | PA_SINK_UNLINKED

text \<open>\<^verbatim>\<open>pa_subscription_event_type_t\<close>: a facility in the low four bits, an operation in the next two.\<close>

definition PA_SUBSCRIPTION_EVENT_SINK :: "32 word" where
  "PA_SUBSCRIPTION_EVENT_SINK = 0x0000"

definition PA_SUBSCRIPTION_EVENT_SOURCE :: "32 word" where
  "PA_SUBSCRIPTION_EVENT_SOURCE = 0x0001"

definition PA_SUBSCRIPTION_EVENT_SINK_INPUT :: "32 word" where
  "PA_SUBSCRIPTION_EVENT_SINK_INPUT = 0x0002"

definition PA_SUBSCRIPTION_EVENT_SOURCE_OUTPUT :: "32 word" where
  "PA_SUBSCRIPTION_EVENT_SOURCE_OUTPUT = 0x0003"

definition PA_SUBSCRIPTION_EVENT_SERVER :: "32 word" where
  "PA_SUBSCRIPTION_EVENT_SERVER = 0x0007"

definition PA_SUBSCRIPTION_EVENT_FACILITY_MASK :: "32 word" where
  "PA_SUBSCRIPTION_EVENT_FACILITY_MASK = 0x000F"

definition PA_SUBSCRIPTION_EVENT_NEW :: "32 word" where
  "PA_SUBSCRIPTION_EVENT_NEW = 0x0000"

definition PA_SUBSCRIPTION_EVENT_CHANGE :: "32 word" where
  "PA_SUBSCRIPTION_EVENT_CHANGE = 0x0010"

definition PA_SUBSCRIPTION_EVENT_REMOVE :: "32 word" where
  "PA_SUBSCRIPTION_EVENT_REMOVE = 0x0020"

definition PA_SUBSCRIPTION_EVENT_TYPE_MASK :: "32 word" where
  "PA_SUBSCRIPTION_EVENT_TYPE_MASK = 0x0030"

text \<open>
  The parts of \<^verbatim>\<open>pa_sink_info\<close> and \<^verbatim>\<open>pa_server_info\<close> that the backend reads.
  \<open>si_active_port\<close> is the name of the active port, \<open>None\<close> for a null pointer;
  \<open>si_form_factor\<close> is what \<^verbatim>\<open>pa_proplist_gets\<close> finds under
  \<^verbatim>\<open>PA_PROP_DEVICE_FORM_FACTOR\<close>.
\<close>

record pa_sink_info =
  si_name :: string
  si_index :: "32 word"
  si_description :: string
  si_volume :: pa_cvolume
  si_mute :: int
  si_monitor_source_name :: string
  si_state :: pa_sink_state_t
  si_active_port :: "string option"
  si_form_factor :: "string option"

record pa_server_info =
  sv_default_sink_name :: string
  sv_default_source_name :: string

section \<open>The audio backend\<close>

text \<open>
  Modelled from the spec: the members of \<^verbatim>\<open>AudioBackend\<close>, whose declaration
  (\<^verbatim>\<open>util/audio_backend.hpp\<close>) is not among the sources. Each member keeps its name
  without the trailing underscore. The percentages are 16-bit, as the percentage
  parameters of \<^verbatim>\<open>changeVolume\<close> are; the device indices are 32-bit, as the library's.
  \<open>context_pa\<close> stands for the member \<^verbatim>\<open>context_\<close> together with what
  \<^verbatim>\<open>pa_context_get_state\<close> returns for it: \<open>None\<close> is the null pointer.
\<close>

record AudioBackend =
  context_pa :: "pa_context_state_t option"
  pa_volume :: pa_cvolume
  sink_idx :: "32 word"
  volume :: "16 word"
  muted :: bool
  port_name :: string
  form_factor :: string
  desc :: string
  monitor :: string
  current_sink_name :: string
  default_sink_name :: string
  default_sink_running :: bool
  current_sink_running :: bool
  source_idx :: "32 word"
  source_volume :: "16 word"
  source_muted :: bool
  source_port_name :: string
  source_desc :: string
  default_source_name :: string
  ignored_sinks :: "string list"

text \<open>
  What a member function does besides changing the members: the requests it hands to the
  library, the messages it logs and the calls of \<^verbatim>\<open>on_updated_cb_\<close>, in order.
  A function of the model returns the new state and this list.
\<close>

datatype request =
    GetServerInfo
  | GetSinkInfoByIndex "32 word"
  | GetSinkInfoList
  | GetSourceInfoByIndex "32 word"
  | GetSourceInfoList
  | SetSinkVolumeByIndex "32 word" pa_cvolume
  | SetSinkMuteByIndex "32 word" int
  | SetSourceMuteByIndex "32 word" int

datatype log_level = Trace | Debug | Error

datatype effect =
    Request request
  | Log log_level string
  | OnUpdated

definition context_ready :: "AudioBackend \<Rightarrow> bool" where
  "context_ready backend = (context_pa backend = Some PA_CONTEXT_READY)"

subsection \<open>Callbacks of the event loop\<close>

definition subscribeCb :: "32 word \<Rightarrow> 32 word \<Rightarrow> effect list" where
  "subscribeCb type idx =
     (let facility = type AND PA_SUBSCRIPTION_EVENT_FACILITY_MASK;
          operation = type AND PA_SUBSCRIPTION_EVENT_TYPE_MASK
      in if operation \<noteq> PA_SUBSCRIPTION_EVENT_CHANGE then []
         else if facility = PA_SUBSCRIPTION_EVENT_SERVER then [Request GetServerInfo]
         else if facility = PA_SUBSCRIPTION_EVENT_SINK then [Request (GetSinkInfoByIndex idx)]
         else if facility = PA_SUBSCRIPTION_EVENT_SINK_INPUT then [Request GetSinkInfoList]
         else if facility = PA_SUBSCRIPTION_EVENT_SOURCE then [Request (GetSourceInfoByIndex idx)]
         else if facility = PA_SUBSCRIPTION_EVENT_SOURCE_OUTPUT then [Request GetSourceInfoList]
         else [])"

definition volumeModifyCb :: "AudioBackend \<Rightarrow> int \<Rightarrow> AudioBackend \<times> effect list" where
  "volumeModifyCb backend success =
     (if success \<noteq> 0 then
        (if context_pa backend \<noteq> None \<and> context_pa backend = Some PA_CONTEXT_READY
         then (backend, [Request (GetSinkInfoByIndex (sink_idx backend))])
         else (backend, []))
      else (backend, [Log Debug ''Volume modification failed'']))"

text \<open>\<^verbatim>\<open>serverInfoCb\<close> reads the server info through the pointer without a null check.\<close>

definition serverInfoCb :: "AudioBackend \<Rightarrow> pa_server_info \<Rightarrow> AudioBackend \<times> effect list" where
  "serverInfoCb backend i =
     (backend\<lparr>current_sink_name := sv_default_sink_name i,
              default_sink_name := sv_default_sink_name i,
              default_source_name := sv_default_source_name i\<rparr>,
      [Request GetSinkInfoList, Request GetSourceInfoList])"

text \<open>
  \<^verbatim>\<open>sinkInfoCb\<close>. The loop over \<^verbatim>\<open>ignored_sinks_\<close> returns at the first entry equal
  to the description, after the same assignment whichever entry it is: membership in the
  list decides. The percentage is computed in \<^verbatim>\<open>float\<close> and stored in the 16-bit
  member; a rounded value beyond the member's range is undefined behaviour. The errors
  of the model are the two kinds of undefined behaviour that it represents.
\<close>

datatype error = UndefinedConversion | UndefinedClamp

definition format_bool :: "bool \<Rightarrow> string" where
  "format_bool b = (if b then ''true'' else ''false'')"

definition sink_trace :: "pa_sink_info \<Rightarrow> bool \<Rightarrow> bool \<Rightarrow> effect" where
  "sink_trace i running idle =
     Log Trace (''Sink name '' @ si_name i @ '' Running:['' @ format_bool running
                @ ''] Idle:['' @ format_bool idle @ '']'')"

definition volume_percentage :: "pa_cvolume \<Rightarrow> real" where
  "volume_percentage v =
     (let volume = float_div (to_float (of_nat (unat (pa_cvolume_avg v))))
                             (to_float (of_nat (unat PA_VOLUME_NORM)))
      in c_round (float_mul volume 100))"

definition sinkInfoCb ::
  "AudioBackend \<Rightarrow> pa_sink_info option \<Rightarrow> error + AudioBackend \<times> effect list" where
  "sinkInfoCb backend info =
     (case info of
        None \<Rightarrow> Inr (backend, [])
      | Some i \<Rightarrow>
          let running = (si_state i = PA_SINK_RUNNING);
              idle = (si_state i = PA_SINK_IDLE);
              trace = sink_trace i running idle
          in if si_description i \<in> set (ignored_sinks backend) then
               Inr (if si_name i = current_sink_name backend
                    then backend\<lparr>current_sink_running := False\<rparr>
                    else backend, [trace])
             else
               let b1 = backend\<lparr>default_sink_running :=
                          (default_sink_name backend = si_name i \<and> (running \<or> idle))\<rparr>
               in if si_name i \<noteq> default_sink_name b1 \<and> \<not> default_sink_running b1 then
                    Inr (b1, [trace])
                  else
                    let b2 = (if current_sink_name b1 = si_name i
                              then b1\<lparr>current_sink_running := (running \<or> idle)\<rparr> else b1);
                        b3 = (if \<not> current_sink_running b2 \<and> (running \<or> idle)
                              then b2\<lparr>current_sink_name := si_name i,
                                      current_sink_running := True\<rparr>
                              else b2)
                    in if current_sink_name b3 = si_name i then
                         let descr = (\<lambda>b. b\<lparr>muted := (si_mute i \<noteq> 0),
                                              desc := si_description i,
                                              monitor := si_monitor_source_name i,
                                              port_name := (case si_active_port i of
                                                              Some p \<Rightarrow> p | None \<Rightarrow> ''Unknown''),
                                              form_factor := (case si_form_factor i of
                                                                Some ff \<Rightarrow> ff | None \<Rightarrow> [])\<rparr>)
                         in if pa_cvolume_valid (si_volume i) then
                              (case to_unsigned (volume_percentage (si_volume i)) of
                                 None \<Rightarrow> Inl UndefinedConversion
                               | Some pct \<Rightarrow>
                                   Inr (descr (b3\<lparr>pa_volume := si_volume i,
                                                  sink_idx := si_index i,
                                                  volume := pct\<rparr>),
                                        [trace, OnUpdated]))
                            else
                              Inr (descr (b3\<lparr>pa_volume := pa_cvolume_init, volume := 0\<rparr>),
                                   [trace,
                                    Log Error ''Invalid volume structure received from PulseAudio'',
                                    OnUpdated])
                       else Inr (b3, [trace]))"

text \<open>
  The descriptors that the server delivers one after the other; an undefined conversion
  ends the run.
\<close>

fun sinkInfoCb_all :: "AudioBackend \<Rightarrow> pa_sink_info option list \<Rightarrow> error + AudioBackend" where
  "sinkInfoCb_all backend [] = Inr backend"
| "sinkInfoCb_all backend (i # is) =
     (case sinkInfoCb backend i of
        Inl e \<Rightarrow> Inl e
      | Inr (backend', _) \<Rightarrow> sinkInfoCb_all backend' is)"

subsection \<open>Volume and mute\<close>

text \<open>
  The entry points take and release the lock of the event loop around the request; the
  lock has no effect on a single call and is left out.

  \<^verbatim>\<open>std::clamp\<close>: the behaviour is undefined when \<open>hi < lo\<close>, where the
  implementations of the standard library differ; the model returns \<open>None\<close> there.
\<close>

definition std_clamp :: "16 word \<Rightarrow> 16 word \<Rightarrow> 16 word \<Rightarrow> 16 word option" where
  "std_clamp v lo hi =
     (if hi < lo then None
      else Some (if v < lo then lo else if hi < v then hi else v))"

definition volume_tick :: real where
  "volume_tick = double_div (of_nat (unat PA_VOLUME_NORM)) 100"

text \<open>
  \<^verbatim>\<open>pa_volume_t vol = volume * volume_tick\<close>: the product in \<^verbatim>\<open>double\<close>, converted
  to the 32-bit native volume. Both overloads compute it, one with the tick written out.
\<close>

definition percentage_to_native :: "16 word \<Rightarrow> pa_volume_t option" where
  "percentage_to_native v = to_unsigned (double_mul (of_nat (unat v)) volume_tick)"

text \<open>
  Both \<^verbatim>\<open>changeVolume\<close> overloads start from the last known structure if it passes
  this test, else from a fresh one with two channels.
\<close>

definition volume_structure_usable :: "AudioBackend \<Rightarrow> bool" where
  "volume_structure_usable backend =
     (pa_cvolume_valid (pa_volume backend) \<and> pa_channels_valid (channels (pa_volume backend)))"

text \<open>The iterations over the channels \<open>0, \<dots>, channels - 1\<close> of a structure.\<close>

definition set_channels :: "pa_volume_t \<Rightarrow> pa_cvolume \<Rightarrow> pa_cvolume" where
  "set_channels vol v =
     v\<lparr>values_cv := fold (\<lambda>i xs. xs[i := vol]) [0..<unat (channels v)] (values_cv v)\<rparr>"

definition increase_channels :: "pa_volume_t \<Rightarrow> pa_cvolume \<Rightarrow> pa_cvolume" where
  "increase_channels change v =
     v\<lparr>values_cv := fold (\<lambda>i xs. xs[i := min (xs ! i + change) PA_VOLUME_MAX])
                          [0..<unat (channels v)] (values_cv v)\<rparr>"

definition decrease_channels :: "pa_volume_t \<Rightarrow> pa_cvolume \<Rightarrow> pa_cvolume" where
  "decrease_channels change v =
     v\<lparr>values_cv := fold (\<lambda>i xs. xs[i := (if xs ! i > change then xs ! i - change else 0)])
                          [0..<unat (channels v)] (values_cv v)\<rparr>"

text \<open>\<^verbatim>\<open>changeVolume(uint16_t volume, uint16_t min_volume, uint16_t max_volume)\<close>\<close>

definition changeVolume_set ::
  "AudioBackend \<Rightarrow> 16 word \<Rightarrow> 16 word \<Rightarrow> 16 word \<Rightarrow> error + AudioBackend \<times> effect list" where
  "changeVolume_set backend volume0 min_volume max_volume =
     (if context_pa backend = None \<or> context_pa backend \<noteq> Some PA_CONTEXT_READY then
        Inr (backend, [Log Error ''PulseAudio context not ready''])
      else
        let (pa_volume0, logs) =
              (if volume_structure_usable backend then (pa_volume backend, [])
               else (pa_cvolume_init\<lparr>channels := 2\<rparr>,
                     [Log Debug ''Using default stereo volume structure'']))
        in case std_clamp volume0 min_volume max_volume of
             None \<Rightarrow> Inl UndefinedClamp
           | Some volume1 \<Rightarrow>
               (case percentage_to_native volume1 of
                  None \<Rightarrow> Inl UndefinedConversion
                | Some vol \<Rightarrow>
                    Inr (backend,
                         logs @ [Request (SetSinkVolumeByIndex (sink_idx backend)
                                            (set_channels vol pa_volume0))])))"

text \<open>
  Modelled from the spec: the enumeration \<^verbatim>\<open>ChangeType\<close>, declared in the header that is
  not among the sources; the spec names an increase and a decrease.
\<close>

datatype ChangeType = Increase | Decrease

text \<open>\<^verbatim>\<open>changeVolume(ChangeType change_type, double step, uint16_t max_volume)\<close>\<close>

definition changeVolume_step ::
  "AudioBackend \<Rightarrow> ChangeType \<Rightarrow> real \<Rightarrow> 16 word \<Rightarrow> error + AudioBackend \<times> effect list" where
  "changeVolume_step backend change_type step max_volume0 =
     (if context_pa backend = None \<or> context_pa backend \<noteq> Some PA_CONTEXT_READY then
        Inr (backend, [Log Error ''PulseAudio context not ready''])
      else if \<not> volume_structure_usable backend then
        (case percentage_to_native (volume backend) of
           None \<Rightarrow> Inl UndefinedConversion
         | Some vol \<Rightarrow>
             Inr (backend,
                  [Log Debug ''Using default stereo volume structure'',
                   Request (SetSinkVolumeByIndex (sink_idx backend)
                              (set_channels vol (pa_cvolume_init\<lparr>channels := 2\<rparr>)))]))
      else
        let max_volume = min max_volume0 (ucast PA_VOLUME_UI_MAX)
        in if change_type = Increase \<and> volume backend < max_volume then
             (case to_unsigned
                     (if double_add (of_nat (unat (volume backend))) step
                           > of_nat (unat max_volume)
                      then c_round (double_mul
                                      (of_int (uint max_volume - uint (volume backend)))
                                      volume_tick)
                      else c_round (double_mul step volume_tick)) of
                None \<Rightarrow> Inl UndefinedConversion
              | Some change \<Rightarrow>
                  Inr (backend,
                       [Request (SetSinkVolumeByIndex (sink_idx backend)
                                   (increase_channels change (pa_volume backend)))]))
           else if change_type = Decrease \<and> volume backend > 0 then
             (case to_unsigned
                     (if double_sub (of_nat (unat (volume backend))) step < 0
                      then c_round (double_mul (of_nat (unat (volume backend))) volume_tick)
                      else c_round (double_mul step volume_tick)) of
                None \<Rightarrow> Inl UndefinedConversion
              | Some change \<Rightarrow>
                  Inr (backend,
                       [Request (SetSinkVolumeByIndex (sink_idx backend)
                                   (decrease_channels change (pa_volume backend)))]))
           else Inr (backend, []))"

text \<open>The four mute toggles; \<open>of_bool\<close> is the cast of the flag to \<^verbatim>\<open>int\<close>.\<close>

definition toggleSinkMute :: "AudioBackend \<Rightarrow> AudioBackend \<times> effect list" where
  "toggleSinkMute backend =
     (let b = backend\<lparr>muted := \<not> muted backend\<rparr>
      in (b, [Request (SetSinkMuteByIndex (sink_idx b) (of_bool (muted b)))]))"

definition toggleSinkMute_to :: "AudioBackend \<Rightarrow> bool \<Rightarrow> AudioBackend \<times> effect list" where
  "toggleSinkMute_to backend mute =
     (let b = backend\<lparr>muted := mute\<rparr>
      in (b, [Request (SetSinkMuteByIndex (sink_idx b) (of_bool (muted b)))]))"

definition toggleSourceMute :: "AudioBackend \<Rightarrow> AudioBackend \<times> effect list" where
  "toggleSourceMute backend =
     (let b = backend\<lparr>source_muted := \<not> muted backend\<rparr>
      in (b, [Request (SetSourceMuteByIndex (source_idx b) (of_bool (source_muted b)))]))"

definition toggleSourceMute_to :: "AudioBackend \<Rightarrow> bool \<Rightarrow> AudioBackend \<times> effect list" where
  "toggleSourceMute_to backend mute =
     (let b = backend\<lparr>source_muted := mute\<rparr>
      in (b, [Request (SetSourceMuteByIndex (source_idx b) (of_bool (source_muted b)))]))"

subsection \<open>A state for the examples\<close>

text \<open>
  A backend with a ready connection whose current output device is the server's default,
  at 50 percent on two channels, with the output muted and the input not.
\<close>

definition example_backend :: AudioBackend where
  "example_backend =
     \<lparr>context_pa = Some PA_CONTEXT_READY,
      pa_volume = \<lparr>channels = 2, values_cv = [32768, 32768] @ replicate 30 PA_VOLUME_INVALID\<rparr>,
      sink_idx = 3,
      volume = 50,
      muted = True,
      port_name = ''analog-output'',
      form_factor = ''speaker'',
      desc = ''Built-in Audio'',
      monitor = ''alsa_output.monitor'',
      current_sink_name = ''alsa_output'',
      default_sink_name = ''alsa_output'',
      default_sink_running = True,
      current_sink_running = True,
      source_idx = 4,
      source_volume = 30,
      source_muted = False,
      source_port_name = ''analog-input'',
      source_desc = ''Built-in Microphone'',
      default_source_name = ''alsa_input'',
      ignored_sinks = [''Monitor of Built-in Audio'']\<rparr>"

text \<open>
  A descriptor of that device, running, under a description that the backend ignores.
\<close>

definition ignored_default_sink :: pa_sink_info where
  "ignored_default_sink =
     \<lparr>si_name = ''alsa_output'',
      si_index = 3,
      si_description = ''Monitor of Built-in Audio'',
      si_volume = \<lparr>channels = 2, values_cv = [65536, 65536] @ replicate 30 PA_VOLUME_INVALID\<rparr>,
      si_mute = 0,
      si_monitor_source_name = ''alsa_output.monitor'',
      si_state = PA_SINK_RUNNING,
      si_active_port = None,
      si_form_factor = None\<rparr>"


section \<open>Properties\<close>

lemmas event_consts =
  PA_SUBSCRIPTION_EVENT_SINK_def PA_SUBSCRIPTION_EVENT_SOURCE_def
  PA_SUBSCRIPTION_EVENT_SINK_INPUT_def PA_SUBSCRIPTION_EVENT_SOURCE_OUTPUT_def
  PA_SUBSCRIPTION_EVENT_SERVER_def PA_SUBSCRIPTION_EVENT_FACILITY_MASK_def
  PA_SUBSCRIPTION_EVENT_CHANGE_def PA_SUBSCRIPTION_EVENT_TYPE_MASK_def

subsection \<open>Subscription events\<close>

text \<open>
  C9. An event whose operation is not a change is dropped without a query. A change of
  the server fetches the server info, a change of a sink fetches that sink by the event's
  index, a change of a sink input fetches the list of sinks, a change of a source fetches
  that source by the event's index, and a change of a source output fetches the list of
  sources.
\<close>

theorem subscribeCb_dispatch:
  "(type AND PA_SUBSCRIPTION_EVENT_TYPE_MASK \<noteq> PA_SUBSCRIPTION_EVENT_CHANGE \<longrightarrow>
      subscribeCb type idx = []) \<and>
   (type AND PA_SUBSCRIPTION_EVENT_TYPE_MASK = PA_SUBSCRIPTION_EVENT_CHANGE \<longrightarrow>
      (type AND PA_SUBSCRIPTION_EVENT_FACILITY_MASK = PA_SUBSCRIPTION_EVENT_SERVER \<longrightarrow>
         subscribeCb type idx = [Request GetServerInfo]) \<and>
      (type AND PA_SUBSCRIPTION_EVENT_FACILITY_MASK = PA_SUBSCRIPTION_EVENT_SINK \<longrightarrow>
         subscribeCb type idx = [Request (GetSinkInfoByIndex idx)]) \<and>
      (type AND PA_SUBSCRIPTION_EVENT_FACILITY_MASK = PA_SUBSCRIPTION_EVENT_SINK_INPUT \<longrightarrow>
         subscribeCb type idx = [Request GetSinkInfoList]) \<and>
      (type AND PA_SUBSCRIPTION_EVENT_FACILITY_MASK = PA_SUBSCRIPTION_EVENT_SOURCE \<longrightarrow>
         subscribeCb type idx = [Request (GetSourceInfoByIndex idx)]) \<and>
      (type AND PA_SUBSCRIPTION_EVENT_FACILITY_MASK = PA_SUBSCRIPTION_EVENT_SOURCE_OUTPUT \<longrightarrow>
         subscribeCb type idx = [Request GetSourceInfoList]))"
  by (simp add: subscribeCb_def Let_def event_consts)

text \<open>
  The five change events and the new and remove events of a sink, with the index 5.
\<close>

theorem subscribeCb_dispatch_witness:
  "subscribeCb 0x17 5 = [Request GetServerInfo] \<and>
   subscribeCb 0x10 5 = [Request (GetSinkInfoByIndex 5)] \<and>
   subscribeCb 0x12 5 = [Request GetSinkInfoList] \<and>
   subscribeCb 0x11 5 = [Request (GetSourceInfoByIndex 5)] \<and>
   subscribeCb 0x13 5 = [Request GetSourceInfoList] \<and>
   subscribeCb 0x00 5 = [] \<and>
   subscribeCb 0x20 5 = []"
  using subscribeCb_dispatch [of "0x17" 5] subscribeCb_dispatch [of "0x10" 5]
    subscribeCb_dispatch [of "0x12" 5] subscribeCb_dispatch [of "0x11" 5]
    subscribeCb_dispatch [of "0x13" 5] subscribeCb_dispatch [of "0x00" 5]
    subscribeCb_dispatch [of "0x20" 5]
  by (simp add: event_consts)

subsection \<open>Completion of a volume change\<close>

text \<open>
  C8. When a volume change has succeeded and the connection is ready, the sink with the
  stored index is fetched again; when it has succeeded and the connection is not ready,
  nothing happens; when it has failed, a message is logged and nothing is requested. No
  member changes in any of the three cases.
\<close>

theorem volumeModifyCb_completion:
  "(success \<noteq> 0 \<and> context_ready backend \<longrightarrow>
      volumeModifyCb backend success =
        (backend, [Request (GetSinkInfoByIndex (sink_idx backend))])) \<and>
   (success \<noteq> 0 \<and> \<not> context_ready backend \<longrightarrow>
      volumeModifyCb backend success = (backend, [])) \<and>
   (success = 0 \<longrightarrow>
      volumeModifyCb backend success = (backend, [Log Debug ''Volume modification failed'']))"
  by (simp add: volumeModifyCb_def context_ready_def)

theorem volumeModifyCb_completion_witness:
  "volumeModifyCb example_backend 1 = (example_backend, [Request (GetSinkInfoByIndex 3)]) \<and>
   volumeModifyCb (example_backend\<lparr>context_pa := Some PA_CONTEXT_FAILED\<rparr>) 1 =
     (example_backend\<lparr>context_pa := Some PA_CONTEXT_FAILED\<rparr>, []) \<and>
   volumeModifyCb example_backend 0 =
     (example_backend, [Log Debug ''Volume modification failed''])"
  using volumeModifyCb_completion [of 1 example_backend]
    volumeModifyCb_completion [of 1 "example_backend\<lparr>context_pa := Some PA_CONTEXT_FAILED\<rparr>"]
    volumeModifyCb_completion [of 0 example_backend]
  by (simp add: context_ready_def example_backend_def)

subsection \<open>Server info\<close>

text \<open>
  C10. Whatever the state, \<^verbatim>\<open>serverInfoCb\<close> makes the reported default sink the current
  sink and stores the reported default sink and source names, and it only requests the
  lists of sinks and sources: a current sink with another name, such as a fallback
  adopted earlier, is no longer current when the callback returns, before any sink
  descriptor is looked at.
\<close>

theorem serverInfoCb_overwrites_current_sink:
  "current_sink_name (fst (serverInfoCb backend i)) = sv_default_sink_name i \<and>
   default_sink_name (fst (serverInfoCb backend i)) = sv_default_sink_name i \<and>
   default_source_name (fst (serverInfoCb backend i)) = sv_default_source_name i \<and>
   snd (serverInfoCb backend i) = [Request GetSinkInfoList, Request GetSourceInfoList] \<and>
   (current_sink_name backend \<noteq> sv_default_sink_name i \<longrightarrow>
      current_sink_name (fst (serverInfoCb backend i)) \<noteq> current_sink_name backend)"
  by (simp add: serverInfoCb_def)

theorem serverInfoCb_overwrites_current_sink_witness:
  "current_sink_name (fst (serverInfoCb (example_backend\<lparr>current_sink_name := ''fallback''\<rparr>)
      \<lparr>sv_default_sink_name = ''alsa_output'', sv_default_source_name = ''alsa_input''\<rparr>))
     = ''alsa_output''"
  using serverInfoCb_overwrites_current_sink
    [of "example_backend\<lparr>current_sink_name := ''fallback''\<rparr>"
        "\<lparr>sv_default_sink_name = ''alsa_output'', sv_default_source_name = ''alsa_input''\<rparr>"]
  by simp

subsection \<open>Mute toggles\<close>

text \<open>
  The flip form of the input toggle stores the negation of the output flag in the input
  flag and sends that value; the output flag keeps its value.
\<close>

lemma toggleSourceMute_result:
  "toggleSourceMute backend =
     (backend\<lparr>source_muted := \<not> muted backend\<rparr>,
      [Request (SetSourceMuteByIndex (source_idx backend) (of_bool (\<not> muted backend)))])"
  by (simp add: toggleSourceMute_def Let_def)

text \<open>
  C5. With the output muted and the input not muted, flipping the input leaves the input
  not muted and asks the server to unmute it: the flag is the negation of the output
  flag, not of its own previous value.
\<close>

theorem toggleSourceMute_negates_sink_flag:
  "source_muted example_backend = False \<and> muted example_backend = True \<and>
   source_muted (fst (toggleSourceMute example_backend)) = False \<and>
   source_muted (fst (toggleSourceMute example_backend)) \<noteq> (\<not> source_muted example_backend) \<and>
   snd (toggleSourceMute example_backend) = [Request (SetSourceMuteByIndex 4 0)]"
  by (simp add: toggleSourceMute_def Let_def example_backend_def)

subsection \<open>Calls without a ready connection\<close>

text \<open>Both \<^verbatim>\<open>changeVolume\<close> overloads log an error and return when the connection is not ready.\<close>

lemma changeVolume_set_not_ready:
  "\<not> context_ready backend \<Longrightarrow>
   changeVolume_set backend v lo hi =
     Inr (backend, [Log Error ''PulseAudio context not ready''])"
  by (auto simp add: changeVolume_set_def context_ready_def)

lemma changeVolume_step_not_ready:
  "\<not> context_ready backend \<Longrightarrow>
   changeVolume_step backend change_type step max_volume =
     Inr (backend, [Log Error ''PulseAudio context not ready''])"
  by (auto simp add: changeVolume_step_def context_ready_def)

text \<open>
  The mute toggles do not test the connection: whatever its state, they change the local
  flag and hand a request to the library.
\<close>

lemma toggleSinkMute_result:
  "toggleSinkMute backend =
     (backend\<lparr>muted := \<not> muted backend\<rparr>,
      [Request (SetSinkMuteByIndex (sink_idx backend) (of_bool (\<not> muted backend)))])"
  by (simp add: toggleSinkMute_def Let_def)

text \<open>
  C4. The mute toggles do not test the connection. On a backend that is still connecting,
  the flip form of the output toggle changes the local flag and hands a mute request to
  the library, and logs nothing.
\<close>

theorem toggleSinkMute_not_ready:
  "\<not> context_ready (example_backend\<lparr>context_pa := Some PA_CONTEXT_CONNECTING\<rparr>) \<and>
   muted (example_backend\<lparr>context_pa := Some PA_CONTEXT_CONNECTING\<rparr>) = True \<and>
   toggleSinkMute (example_backend\<lparr>context_pa := Some PA_CONTEXT_CONNECTING\<rparr>) =
     (example_backend\<lparr>context_pa := Some PA_CONTEXT_CONNECTING, muted := False\<rparr>,
      [Request (SetSinkMuteByIndex 3 0)])"
  by (simp add: toggleSinkMute_def Let_def example_backend_def context_ready_def)

subsection \<open>Ignored sinks\<close>

text \<open>
  A descriptor under an ignored description changes nothing but the running flag of the
  current sink, and that only when it carries the current sink's name.
\<close>

lemma sinkInfoCb_ignored:
  assumes "si_description i \<in> set (ignored_sinks backend)"
  shows "sinkInfoCb backend (Some i) =
           Inr (if si_name i = current_sink_name backend
                then backend\<lparr>current_sink_running := False\<rparr> else backend,
                [sink_trace i (si_state i = PA_SINK_RUNNING) (si_state i = PA_SINK_IDLE)])"
  using assms by (simp add: sinkInfoCb_def Let_def)

text \<open>
  One delivery keeps the ignore list. The current sink's name afterwards is the one before
  or the name of the delivered descriptor, whose description is then not ignored; the
  description shown afterwards is the one before or one that is not ignored.
\<close>

lemma sinkInfoCb_adopts:
  assumes "sinkInfoCb backend info = Inr (backend', effs)"
  shows "ignored_sinks backend' = ignored_sinks backend \<and>
         (current_sink_name backend' = current_sink_name backend \<or>
          (\<exists>i. info = Some i \<and> current_sink_name backend' = si_name i \<and>
               si_description i \<notin> set (ignored_sinks backend))) \<and>
         (desc backend' = desc backend \<or> desc backend' \<notin> set (ignored_sinks backend))"
proof (cases info)
  case None
  with assms show ?thesis by (simp add: sinkInfoCb_def)
next
  case (Some i)
  show ?thesis
  proof (cases "si_description i \<in> set (ignored_sinks backend)")
    case True
    with assms Some show ?thesis
      by (auto simp add: sinkInfoCb_ignored split: if_splits)
  next
    case False
    with assms Some show ?thesis
      by (auto simp add: sinkInfoCb_def Let_def split: if_splits option.splits)
  qed
qed

lemma sinkInfoCb_all_adopts:
  "sinkInfoCb_all backend ds = Inr backend' \<Longrightarrow>
   ignored_sinks backend' = ignored_sinks backend \<and>
   (current_sink_name backend' = current_sink_name backend \<or>
    (\<exists>i. Some i \<in> set ds \<and> current_sink_name backend' = si_name i \<and>
         si_description i \<notin> set (ignored_sinks backend))) \<and>
   (desc backend' = desc backend \<or> desc backend' \<notin> set (ignored_sinks backend))"
proof (induction ds arbitrary: backend)
  case Nil
  then show ?case by simp
next
  case (Cons d ds)
  from Cons.prems obtain b1 effs where
    step: "sinkInfoCb backend d = Inr (b1, effs)" and rest: "sinkInfoCb_all b1 ds = Inr backend'"
    by (auto split: sum.splits)
  note s = sinkInfoCb_adopts [OF step]
  note r = Cons.IH [OF rest]
  from s r show ?case
    by (simp; metis)
qed

text \<open>
  C1. A descriptor whose description is in the ignore list leaves every member as it was,
  except that the running flag of the current sink becomes false when the descriptor has
  the current sink's name; it is not made current, nothing is copied from it and the
  update callback is not called, whatever its state and whether or not it is the server's
  default. Over any sequence of descriptors, the name of the current sink at the end is
  the name at the start or the name of a delivered descriptor that is not ignored, and the
  description shown at the end is the one at the start or one that is not ignored.
\<close>

theorem resolver_never_adopts_ignored:
  "(si_description i \<in> set (ignored_sinks backend) \<longrightarrow>
      sinkInfoCb backend (Some i) =
        Inr (if si_name i = current_sink_name backend
             then backend\<lparr>current_sink_running := False\<rparr> else backend,
             [sink_trace i (si_state i = PA_SINK_RUNNING) (si_state i = PA_SINK_IDLE)])) \<and>
   (sinkInfoCb_all backend ds = Inr backend' \<longrightarrow>
      (current_sink_name backend' = current_sink_name backend \<or>
       (\<exists>j. Some j \<in> set ds \<and> current_sink_name backend' = si_name j \<and>
            si_description j \<notin> set (ignored_sinks backend))) \<and>
      (desc backend' = desc backend \<or> desc backend' \<notin> set (ignored_sinks backend)))"
  using sinkInfoCb_ignored [of i backend] sinkInfoCb_all_adopts [of backend ds backend']
  by blast

text \<open>
  The server's default sink, running and current, delivered under an ignored description:
  it only loses the running flag.
\<close>

theorem resolver_never_adopts_ignored_witness:
  "si_description ignored_default_sink \<in> set (ignored_sinks example_backend) \<and>
   si_name ignored_default_sink = default_sink_name example_backend \<and>
   si_state ignored_default_sink = PA_SINK_RUNNING \<and>
   sinkInfoCb example_backend (Some ignored_default_sink) =
     Inr (example_backend\<lparr>current_sink_running := False\<rparr>,
          [sink_trace ignored_default_sink True False]) \<and>
   sinkInfoCb_all example_backend [Some ignored_default_sink] =
     Inr (example_backend\<lparr>current_sink_running := False\<rparr>) \<and>
   desc (example_backend\<lparr>current_sink_running := False\<rparr>) = desc example_backend"
proof -
  have ign: "si_description ignored_default_sink \<in> set (ignored_sinks example_backend)"
    by (simp add: ignored_default_sink_def example_backend_def)
  have cur: "si_name ignored_default_sink = current_sink_name example_backend"
    by (simp add: ignored_default_sink_def example_backend_def)
  have one: "sinkInfoCb example_backend (Some ignored_default_sink) =
      Inr (example_backend\<lparr>current_sink_running := False\<rparr>,
           [sink_trace ignored_default_sink True False])"
    using resolver_never_adopts_ignored [of ignored_default_sink example_backend "[]" example_backend]
      ign cur
    by (simp add: ignored_default_sink_def)
  then have run: "sinkInfoCb_all example_backend [Some ignored_default_sink] =
      Inr (example_backend\<lparr>current_sink_running := False\<rparr>)"
    by simp
  from resolver_never_adopts_ignored [of ignored_default_sink example_backend
      "[Some ignored_default_sink]" "example_backend\<lparr>current_sink_running := False\<rparr>"] run
  have "desc (example_backend\<lparr>current_sink_running := False\<rparr>) = desc example_backend \<or>
      desc (example_backend\<lparr>current_sink_running := False\<rparr>) \<notin> set (ignored_sinks example_backend)"
    by blast
  then have "desc (example_backend\<lparr>current_sink_running := False\<rparr>) = desc example_backend"
    by simp
  with ign one run show ?thesis
    by (simp add: ignored_default_sink_def example_backend_def)
qed

subsection \<open>Rounding errors\<close>

text \<open>
  Rounding to the nearest integer moves a number by at most one half; the binary exponent
  brackets a positive number between two powers of two; rounding to \<open>p\<close> bits therefore
  changes a number by at most its \<open>2\<^sup>-\<^sup>p\<close>-th part, and keeps the sign.
\<close>

lemma round_half_even_error: "\<bar>of_int (round_half_even y) - y\<bar> \<le> 1 / 2"
proof -
  have "of_int \<lfloor>y\<rfloor> \<le> y" "y < of_int \<lfloor>y\<rfloor> + 1"
    by linarith+
  then show ?thesis
    by (auto simp add: round_half_even_def Let_def)
qed

lemma binary_exponent_le:
  assumes "0 < x"
  shows "2 powi binary_exponent x \<le> x"
proof (cases "1 \<le> x")
  case True
  then have pos: "0 < \<lfloor>x\<rfloor>" by linarith
  from bitlen_bounds [OF pos] have "2 ^ nat (bitlen \<lfloor>x\<rfloor> - 1) \<le> \<lfloor>x\<rfloor>"
    by simp
  then have "(2::real) ^ nat (bitlen \<lfloor>x\<rfloor> - 1) \<le> of_int \<lfloor>x\<rfloor>"
    by (metis of_int_le_iff of_int_numeral of_int_power)
  also have "\<dots> \<le> x" by linarith
  finally have le: "(2::real) ^ nat (bitlen \<lfloor>x\<rfloor> - 1) \<le> x" .
  from pos have "1 \<le> bitlen \<lfloor>x\<rfloor>"
    by (simp add: bitlen_alt_def)
  with le True show ?thesis
    by (simp add: binary_exponent_def power_int_def)
next
  case False
  let ?m = "\<lceil>1 / x\<rceil> - 1"
  from False assms have "1 < 1 / x" by simp
  then have pos: "0 < ?m" by linarith
  from bitlen_bounds [OF pos] have "?m < 2 ^ nat (bitlen ?m)" by simp
  then have "\<lceil>1 / x\<rceil> \<le> 2 ^ nat (bitlen ?m)" by linarith
  then have "of_int \<lceil>1 / x\<rceil> \<le> (2::real) ^ nat (bitlen ?m)"
    by (metis of_int_le_iff of_int_numeral of_int_power)
  then have "1 / x \<le> (2::real) ^ nat (bitlen ?m)" by linarith
  with assms have "1 / (2::real) ^ nat (bitlen ?m) \<le> x"
    by (simp add: field_simps)
  moreover from pos have "1 \<le> bitlen ?m" by (simp add: bitlen_alt_def)
  ultimately show ?thesis using False
    by (simp add: binary_exponent_def power_int_def field_simps)
qed

lemma binary_exponent_gt:
  assumes "0 < x"
  shows "x < 2 powi (binary_exponent x + 1)"
proof (cases "1 \<le> x")
  case True
  then have pos: "0 < \<lfloor>x\<rfloor>" by linarith
  from bitlen_bounds [OF pos] have "\<lfloor>x\<rfloor> < 2 ^ nat (bitlen \<lfloor>x\<rfloor>)"
    by simp
  then have "\<lfloor>x\<rfloor> + 1 \<le> 2 ^ nat (bitlen \<lfloor>x\<rfloor>)" by linarith
  then have "of_int (\<lfloor>x\<rfloor> + 1) \<le> (2::real) ^ nat (bitlen \<lfloor>x\<rfloor>)"
    by (metis of_int_le_iff of_int_numeral of_int_power)
  moreover have "x < of_int (\<lfloor>x\<rfloor> + 1)" by linarith
  ultimately have "x < (2::real) ^ nat (bitlen \<lfloor>x\<rfloor>)" by linarith
  moreover have "0 \<le> bitlen \<lfloor>x\<rfloor>" by (rule bitlen_nonneg)
  ultimately show ?thesis using True
    by (simp add: binary_exponent_def power_int_def)
next
  case False
  let ?m = "\<lceil>1 / x\<rceil> - 1"
  from False assms have "1 < 1 / x" by simp
  then have pos: "0 < ?m" by linarith
  then have b1: "1 \<le> bitlen ?m" by (simp add: bitlen_alt_def)
  from bitlen_bounds [OF pos] have "2 ^ nat (bitlen ?m - 1) \<le> ?m" by simp
  then have "(2::real) ^ nat (bitlen ?m - 1) \<le> of_int ?m"
    by (metis of_int_le_iff of_int_numeral of_int_power)
  moreover have "of_int ?m < 1 / x" by linarith
  ultimately have "(2::real) ^ nat (bitlen ?m - 1) < 1 / x" by linarith
  with assms have "x < 1 / (2::real) ^ nat (bitlen ?m - 1)"
    by (simp add: field_simps)
  moreover from b1 have "- bitlen ?m + 1 \<le> 0" by simp
  moreover from b1 have "nat (- (- bitlen ?m + 1)) = nat (bitlen ?m - 1)" by simp
  ultimately show ?thesis using False b1
    by (simp add: binary_exponent_def power_int_def field_simps)
qed

lemma round_to_precision_error:
  "\<bar>round_to_precision p x - x\<bar> \<le> \<bar>x\<bar> / 2 ^ p"
proof (cases "x = 0")
  case True
  then show ?thesis by (simp add: round_to_precision_def)
next
  case False
  define e where "e = binary_exponent \<bar>x\<bar>"
  define k where "k = int p - 1 - e"
  have pk: "(0::real) < 2 powi k" by simp
  have "round_to_precision p x = of_int (round_half_even (x * 2 powi k)) / 2 powi k"
    using False by (simp add: round_to_precision_def Let_def k_def e_def)
  then have "round_to_precision p x - x =
      (of_int (round_half_even (x * 2 powi k)) - x * 2 powi k) / 2 powi k"
    using pk by (simp add: field_simps)
  then have "\<bar>round_to_precision p x - x\<bar> =
      \<bar>of_int (round_half_even (x * 2 powi k)) - x * 2 powi k\<bar> / 2 powi k"
    using pk by simp
  also have "\<dots> \<le> (1 / 2) / 2 powi k"
    by (rule divide_right_mono [OF round_half_even_error]) simp
  also have "\<dots> = 2 powi e / 2 ^ p"
  proof -
    have "(2::real) powi k = 2 powi (int p - 1) / 2 powi e"
      by (simp add: k_def power_int_diff)
    also have "(2::real) powi (int p - 1) = 2 ^ p / 2"
      by (simp add: power_int_diff)
    finally show ?thesis by (simp add: field_simps)
  qed
  also have "\<dots> \<le> \<bar>x\<bar> / 2 ^ p"
    using binary_exponent_le [of "\<bar>x\<bar>"] False by (simp add: e_def divide_right_mono)
  finally show ?thesis .
qed

lemma round_to_precision_nonneg:
  assumes "0 \<le> x"
  shows "0 \<le> round_to_precision p x"
proof -
  have "(1::real) \<le> 2 ^ p" by simp
  with assms have "x * 1 \<le> x * 2 ^ p"
    by (rule mult_left_mono [rotated])
  with assms have "\<bar>x\<bar> / 2 ^ p \<le> x"
    by (simp add: field_simps)
  with round_to_precision_error [of p x] show ?thesis by linarith
qed


text \<open>
  The tick is the double nearest to 655.36, and 65536 is a \<^verbatim>\<open>float\<close>.
\<close>

lemma volume_tick_value: "volume_tick = 5764607523034235 / 2 ^ 43"
  by (simp add: volume_tick_def double_div_def to_double_def PA_VOLUME_NORM_def
      round_to_precision_def binary_exponent_def round_half_even_def Let_def compute_bitlen)

lemma to_float_norm: "to_float (of_nat (unat PA_VOLUME_NORM)) = 65536"
  by (simp add: to_float_def PA_VOLUME_NORM_def
      round_to_precision_def binary_exponent_def round_half_even_def Let_def compute_bitlen)

lemma unat_percent_bound: "unat (v :: 16 word) \<le> 65535"
  using unsigned_less [of v, where ?'a = nat] by simp

text \<open>The product of a percentage and the tick, rounded to a double.\<close>

lemma double_mul_tick_bounds:
  fixes n :: nat
  assumes "n \<le> 65535"
  defines "x \<equiv> double_mul (real n) volume_tick"
  shows "0 \<le> x"
    and "real n * (16384 / 25) - 1 / 1000000 \<le> x"
    and "x \<le> real n * (16384 / 25) + 1 / 1000000"
proof -
  let ?n = "real n"
  let ?y = "?n * volume_tick"
  have n: "0 \<le> ?n" "?n \<le> 65535" using assms by simp_all
  have t: "16384 / 25 \<le> volume_tick" "volume_tick \<le> 16384 / 25 + 1 / 1000000000000"
    by (simp_all add: volume_tick_value)
  have y0: "0 \<le> ?y" using n t by simp
  have ylo: "?n * (16384 / 25) \<le> ?y"
    using n t by (intro mult_left_mono) simp_all
  have "?y \<le> ?n * (16384 / 25 + 1 / 1000000000000)"
    using n t by (intro mult_left_mono) simp_all
  then have yhi: "?y \<le> ?n * (16384 / 25) + 1 / 10000000"
    using n by (simp add: algebra_simps)
  have ybig: "?y \<le> 2 ^ 26" using yhi n by simp
  have "\<bar>x - ?y\<bar> \<le> \<bar>?y\<bar> / 2 ^ 53"
    unfolding x_def double_mul_def to_double_def by (rule round_to_precision_error)
  also have "\<dots> \<le> 2 ^ 26 / 2 ^ 53"
  proof (rule divide_right_mono)
    show "\<bar>?y\<bar> \<le> 2 ^ 26" using y0 ybig by linarith
  qed simp
  also have "\<dots> \<le> 1 / 10000000" by simp
  finally have err: "\<bar>x - ?y\<bar> \<le> 1 / 10000000" .
  show "0 \<le> x"
    unfolding x_def double_mul_def to_double_def using y0 by (rule round_to_precision_nonneg)
  show "?n * (16384 / 25) - 1 / 1000000 \<le> x" using err ylo by linarith
  show "x \<le> ?n * (16384 / 25) + 1 / 1000000" using err yhi by linarith
qed


text \<open>
  The native volume of a 16-bit percentage: the conversion is defined, the result lies at
  most one below \<open>655.36\<close> times the percentage and is a valid volume.
\<close>

lemma percentage_to_native_defined:
  fixes v :: "16 word"
  obtains vol where "percentage_to_native v = Some vol"
    and "real (unat vol) \<le> real (unat v) * (16384 / 25) + 1 / 1000000"
    and "real (unat v) * (16384 / 25) - 1 - 1 / 1000000 < real (unat vol)"
    and "vol \<le> PA_VOLUME_MAX"
proof -
  define x where "x = double_mul (real (unat v)) volume_tick"
  note b = double_mul_tick_bounds [OF unat_percent_bound [of v], folded x_def]
  have n: "real (unat v) \<le> 65535"
    using unat_percent_bound [of v] by (simp del: of_nat_unat)
  have f0: "0 \<le> \<lfloor>x\<rfloor>" using b(1) by simp
  have "x < 42949018" using b(3) n by linarith
  then have "\<lfloor>x\<rfloor> < 42949018" by linarith
  then have fhi: "\<lfloor>x\<rfloor> < 2147483647" by simp
  define vol :: pa_volume_t where "vol = word_of_int \<lfloor>x\<rfloor>"
  have uint: "uint vol = \<lfloor>x\<rfloor>"
    unfolding vol_def using f0 fhi by (simp add: uint_word_of_int take_bit_int_eq_self)
  then have unat: "real (unat vol) = of_int \<lfloor>x\<rfloor>"
    using f0 by (simp add: unat_eq_nat_uint)
  have conv: "percentage_to_native v = Some vol"
    using b(1) f0 fhi
    by (simp add: percentage_to_native_def to_unsigned_def truncate_real_def Let_def
        x_def [symmetric] vol_def del: of_nat_unat)
  have le: "vol \<le> PA_VOLUME_MAX"
    using fhi uint by (simp add: word_le_def PA_VOLUME_MAX_def)
  have "real (unat vol) \<le> x" "x - 1 < real (unat vol)"
    unfolding unat by linarith+
  with b have "real (unat vol) \<le> real (unat v) * (16384 / 25) + 1 / 1000000"
    "real (unat v) * (16384 / 25) - 1 - 1 / 1000000 < real (unat vol)"
    by linarith+
  with conv le show thesis using that by blast
qed

text \<open>
  The way back in \<^verbatim>\<open>float\<close>, as \<^verbatim>\<open>sinkInfoCb\<close> computes it: from a native volume
  that close to \<open>655.36 n\<close> the rounded percentage is \<open>n\<close>.
\<close>

lemma float_percentage_of_native:
  fixes n a :: nat
  assumes n: "n \<le> 65535"
    and lo: "real n * (16384 / 25) - 1 - 1 / 1000000 < real a"
    and hi: "real a \<le> real n * (16384 / 25) + 1 / 1000000"
  shows "c_round (float_mul (float_div (to_float (real a)) 65536) 100) = real n"
proof -
  define y1 where "y1 = to_float (real a)"
  define y2 where "y2 = float_div y1 65536"
  define y3 where "y3 = float_mul y2 100"
  have rn: "real n \<le> 65535" using n by simp
  have abig: "real a \<le> 42949018" using hi rn by linarith
  have y1_0: "0 \<le> y1"
    unfolding y1_def to_float_def by (rule round_to_precision_nonneg) simp
  have "\<bar>y1 - real a\<bar> \<le> \<bar>real a\<bar> / 2 ^ 24"
    unfolding y1_def to_float_def by (rule round_to_precision_error)
  then have "\<bar>y1 - real a\<bar> \<le> real a / 16777216" by simp
  then have e1: "\<bar>y1 - real a\<bar> \<le> 3" using abig by linarith
  have y2_0: "0 \<le> y2"
    unfolding y2_def float_div_def to_float_def
    by (rule round_to_precision_nonneg) (use y1_0 in simp)
  have "\<bar>y2 - y1 / 65536\<bar> \<le> \<bar>y1 / 65536\<bar> / 2 ^ 24"
    unfolding y2_def float_div_def to_float_def by (rule round_to_precision_error)
  then have "\<bar>y2 - y1 / 65536\<bar> \<le> y1 / 65536 / 16777216" using y1_0 by simp
  then have e2: "\<bar>y2 - y1 / 65536\<bar> \<le> 1 / 10000" using e1 abig by linarith
  have y3_0: "0 \<le> y3"
    unfolding y3_def float_mul_def to_float_def
    by (rule round_to_precision_nonneg) (use y2_0 in simp)
  have "\<bar>y3 - y2 * 100\<bar> \<le> \<bar>y2 * 100\<bar> / 2 ^ 24"
    unfolding y3_def float_mul_def to_float_def by (rule round_to_precision_error)
  then have "\<bar>y3 - y2 * 100\<bar> \<le> y2 * 100 / 16777216" using y2_0 by simp
  then have e3: "\<bar>y3 - y2 * 100\<bar> \<le> 1 / 200" using e2 e1 abig by linarith
  have "real n - 1 / 2 < y3" "y3 < real n + 1 / 2"
    using e1 e2 e3 lo hi by linarith+
  then have "\<lfloor>y3 + 1 / 2\<rfloor> = int n"
    by (intro floor_unique) simp_all
  with y3_0 show ?thesis
    by (simp add: c_round_def y3_def y2_def y1_def)
qed

text \<open>
  Rounding never crosses an integer that fits the precision. With it the native volume of
  a percentage is the integer part of \<open>655.36\<close> times the percentage: the product in
  \<^verbatim>\<open>double\<close> and its truncation compute \<open>65536 v div 100\<close>.
\<close>

lemma round_half_even_ge_floor: "\<lfloor>z\<rfloor> \<le> round_half_even z"
  by (simp add: round_half_even_def Let_def)

lemma round_to_precision_ge_int:
  assumes "of_int m \<le> y" and "0 < y" and "y < 2 ^ p"
  shows "of_int m \<le> round_to_precision p y"
proof -
  define k where "k = int p - 1 - binary_exponent y"
  have "2 powi binary_exponent y \<le> y" using assms(2) by (rule binary_exponent_le)
  also have "y < 2 powi int p" using assms(3) by (simp add: power_int_def)
  finally have "binary_exponent y < int p"
    by (rule power_int_le_imp_less_exp [rotated]) simp_all
  then have k0: "0 \<le> k" using assms(2) by (simp add: k_def)
  then have pw: "(2::real) powi k = 2 ^ nat k" by (simp add: power_int_def)
  have "of_int (m * 2 ^ nat k) \<le> y * 2 ^ nat k"
    using assms(1) by (simp add: mult_right_mono)
  then have "m * 2 ^ nat k \<le> \<lfloor>y * 2 ^ nat k\<rfloor>" by (simp add: le_floor_iff)
  also have "\<dots> \<le> round_half_even (y * 2 ^ nat k)" by (rule round_half_even_ge_floor)
  finally have "of_int (m * 2 ^ nat k) \<le> real_of_int (round_half_even (y * 2 ^ nat k))"
    by (simp only: of_int_le_iff)
  then have "of_int m * 2 ^ nat k \<le> real_of_int (round_half_even (y * 2 ^ nat k))"
    by simp
  then have "of_int m \<le> real_of_int (round_half_even (y * 2 ^ nat k)) / 2 ^ nat k"
    by (simp add: pos_le_divide_eq)
  moreover have "round_to_precision p y = of_int (round_half_even (y * 2 powi k)) / 2 powi k"
    using assms(2) by (simp add: round_to_precision_def Let_def k_def)
  ultimately show ?thesis by (simp add: pw)
qed

lemma percentage_to_native_exact:
  fixes v :: "16 word"
  shows "percentage_to_native v = Some (word_of_nat (unat v * 65536 div 100))"
proof -
  define n where "n = unat v"
  define x where "x = double_mul (real n) volume_tick"
  define q where "q = n * 16384 div 25"
  have nle: "n \<le> 65535" unfolding n_def by (rule unat_percent_bound)
  note b = double_mul_tick_bounds [OF nle, folded x_def]
  have split: "n * 16384 = 25 * q + n * 16384 mod 25"
    unfolding q_def by simp
  have "n * 16384 mod 25 \<le> 24" by simp
  with split have "n * 16384 \<le> 25 * q + 24" "25 * q \<le> n * 16384" by linarith+
  then have "real (n * 16384) \<le> real (25 * q + 24)" "real (25 * q) \<le> real (n * 16384)"
    by (simp_all only: of_nat_le_iff)
  then have frac: "real n * (16384 / 25) \<le> real q + 24 / 25"
    and qle: "real q \<le> real n * (16384 / 25)"
    by simp_all
  have upper: "x < real q + 1" using b(3) frac by linarith
  have lower: "real q \<le> x"
  proof (cases "n = 0")
    case True
    then show ?thesis using b(1) by (simp add: q_def)
  next
    case False
    let ?y = "real n * volume_tick"
    have t: "16384 / 25 \<le> volume_tick" "volume_tick \<le> 656"
      by (simp_all add: volume_tick_value)
    have "real n * (16384 / 25) \<le> ?y"
      using t by (intro mult_left_mono) simp_all
    with qle have 1: "of_int (int q) \<le> ?y" by simp
    have 2: "0 < ?y" using False t by simp
    have "?y \<le> 65535 * 656"
      using nle t by (intro mult_mono) simp_all
    then have 3: "?y < 2 ^ 53" by simp
    from round_to_precision_ge_int [OF 1 2 3] show ?thesis
      by (simp add: x_def double_mul_def to_double_def)
  qed
  have fl: "\<lfloor>x\<rfloor> = int q"
    using lower upper by (intro floor_unique) simp_all
  have "q \<le> 65535 * 16384 div 25"
    unfolding q_def using nle by (intro div_le_mono mult_le_mono1)
  then have qhi: "int q < 2 ^ 32" by simp
  have "n * 65536 div 100 = q"
    unfolding q_def by (simp add: div_mult2_eq [symmetric, of _ 4 25, simplified])
  moreover have "percentage_to_native v = Some (word_of_int (int q))"
    using b(1) fl qhi
    by (simp add: percentage_to_native_def to_unsigned_def truncate_real_def Let_def
        n_def [symmetric] x_def [symmetric] del: of_nat_unat)
  ultimately show ?thesis by (simp add: n_def)
qed

lemma percentage_to_native_unat:
  assumes "percentage_to_native v = Some vol"
  shows "unat vol = unat v * 65536 div 100"
proof -
  have "unat v * 65536 div 100 \<le> 65535 * 65536 div 100"
    using unat_percent_bound [of v] by (intro div_le_mono mult_le_mono1)
  then have lt: "unat v * 65536 div 100 < 2 ^ 32" by simp
  have "unat (word_of_nat (unat v * 65536 div 100) :: pa_volume_t) = unat v * 65536 div 100"
    by (rule of_nat_inverse [OF refl]) (use lt in simp)
  with assms show ?thesis by (simp add: percentage_to_native_exact)
qed

subsection \<open>The iterations over the channels\<close>

text \<open>
  A loop that replaces entry \<open>i\<close> by a function of its value, for \<open>i\<close> from 0 to
  \<open>n - 1\<close>, maps the function over the first \<open>n\<close> entries and keeps the rest.
\<close>

lemma fold_update_upt:
  "fold (\<lambda>i xs. xs[i := f (xs ! i)]) [0..<n] xs = map f (take n xs) @ drop n xs"
proof (induction n)
  case 0
  show ?case by simp
next
  case (Suc n)
  show ?case
  proof (cases "n < length xs")
    case True
    have "fold (\<lambda>i xs. xs[i := f (xs ! i)]) [0..<Suc n] xs =
        (map f (take n xs) @ drop n xs)[n := f ((map f (take n xs) @ drop n xs) ! n)]"
      using Suc by simp
    also have "(map f (take n xs) @ drop n xs) ! n = xs ! n"
      using True by (simp add: nth_append)
    also have "(map f (take n xs) @ drop n xs)[n := f (xs ! n)] =
        map f (take n xs) @ (drop n xs)[0 := f (xs ! n)]"
      using True by (simp add: list_update_append)
    also have "(drop n xs)[0 := f (xs ! n)] = f (xs ! n) # drop (Suc n) xs"
      using True by (simp add: Cons_nth_drop_Suc [symmetric])
    also have "map f (take n xs) @ f (xs ! n) # drop (Suc n) xs =
        map f (take (Suc n) xs) @ drop (Suc n) xs"
      using True by (simp add: take_Suc_conv_app_nth)
    finally show ?thesis .
  next
    case False
    then show ?thesis using Suc by (simp add: list_update_beyond)
  qed
qed

lemma take_map_take_drop: "take n (map f (take n xs) @ drop n xs) = map f (take n xs)"
  by (cases "n \<le> length xs") simp_all

lemma channels_unchanged [simp]:
  "channels (set_channels vol v) = channels v"
  "channels (increase_channels change v) = channels v"
  "channels (decrease_channels change v) = channels v"
  by (simp_all add: set_channels_def increase_channels_def decrease_channels_def)

lemma channel_values_set_channels:
  "channel_values (set_channels vol v) =
     replicate (min (unat (channels v)) (length (values_cv v))) vol"
proof -
  have "values_cv (set_channels vol v) =
      map (\<lambda>_. vol) (take (unat (channels v)) (values_cv v))
      @ drop (unat (channels v)) (values_cv v)"
    using fold_update_upt [of "\<lambda>_. vol" "unat (channels v)" "values_cv v"]
    by (simp add: set_channels_def)
  then have "channel_values (set_channels vol v) =
      map (\<lambda>_. vol) (take (unat (channels v)) (values_cv v))"
    by (simp only: channel_values_def channels_unchanged take_map_take_drop)
  then show ?thesis by (simp add: map_replicate_const min.commute)
qed

lemma channel_values_increase_channels:
  "channel_values (increase_channels change v) =
     map (\<lambda>x. min (x + change) PA_VOLUME_MAX) (channel_values v)"
proof -
  have "values_cv (increase_channels change v) =
      map (\<lambda>x. min (x + change) PA_VOLUME_MAX) (take (unat (channels v)) (values_cv v))
      @ drop (unat (channels v)) (values_cv v)"
    using fold_update_upt [of "\<lambda>x. min (x + change) PA_VOLUME_MAX"
        "unat (channels v)" "values_cv v"]
    by (simp add: increase_channels_def)
  then show ?thesis
    by (simp only: channel_values_def channels_unchanged take_map_take_drop)
qed


subsection \<open>The absolute volume set\<close>

text \<open>
  Where it is defined, \<^verbatim>\<open>std::clamp\<close> is the clamp of arithmetic: \<open>lo\<close> below the
  range, \<open>hi\<close> above it, the value itself inside.
\<close>

lemma std_clamp_defined:
  assumes "lo \<le> hi"
  shows "std_clamp v lo hi = Some (max lo (min hi v))"
  using assms by (auto simp add: std_clamp_def max_def min_def)

lemma std_clamp_undefined: "hi < lo \<Longrightarrow> std_clamp v lo hi = None"
  by (simp add: std_clamp_def)

lemma clamp_cases:
  fixes v lo hi :: "16 word"
  assumes "lo \<le> hi"
  shows "lo \<le> max lo (min hi v)" and "max lo (min hi v) \<le> hi"
    and "v < lo \<longrightarrow> max lo (min hi v) = lo"
    and "hi < v \<longrightarrow> max lo (min hi v) = hi"
    and "lo \<le> v \<and> v \<le> hi \<longrightarrow> max lo (min hi v) = v"
  using assms by (auto simp add: max_def min_def)

lemma replicate_2: "replicate 2 x = [x, x]"
  by (simp add: numeral_2_eq_2)

lemma channel_values_stereo_default:
  "channel_values (set_channels vol (pa_cvolume_init\<lparr>channels := 2\<rparr>)) = [vol, vol]"
proof -
  have "unat (2 :: 8 word) = 2" by simp
  then show ?thesis
    by (simp add: channel_values_set_channels pa_cvolume_init_def PA_CHANNELS_MAX_def
        replicate_2)
qed

text \<open>
  C3. Let the connection be ready. When \<open>max < min\<close> the clamp is undefined. When
  \<open>min \<le> max\<close>, \<^verbatim>\<open>changeVolume(volume, min, max)\<close> clamps the target into
  \<open>[min, max]\<close>, to \<open>c = max min (min max volume)\<close>: \<open>min\<close> for a target below the
  range, \<open>max\<close> for one above, the target itself inside. It converts \<open>c\<close> to one native
  value \<open>vol = 65536 c div 100\<close>, a conversion that is defined for every 16-bit
  percentage, and submits one request for the stored sink index whose structure has
  \<open>vol\<close> in every channel in use. The structure is the last known one, with its channel
  count, when that is usable, and else a fresh one with two channels, announced by a debug
  message. No member changes.
\<close>

theorem changeVolume_set_uniform:
  assumes "context_ready backend"
  shows "(hi < lo \<longrightarrow> changeVolume_set backend v lo hi = Inl UndefinedClamp) \<and>
         (lo \<le> hi \<longrightarrow>
            (\<exists>vol cv.
               unat vol = unat (max lo (min hi v)) * 65536 div 100 \<and>
               percentage_to_native (max lo (min hi v)) = Some vol \<and>
               changeVolume_set backend v lo hi =
                 Inr (backend,
                      (if volume_structure_usable backend then []
                       else [Log Debug ''Using default stereo volume structure''])
                      @ [Request (SetSinkVolumeByIndex (sink_idx backend) cv)]) \<and>
               channels cv =
                 (if volume_structure_usable backend then channels (pa_volume backend)
                  else 2) \<and>
               list_all (\<lambda>x. x = vol) (channel_values cv) \<and>
               (length (values_cv (pa_volume backend)) = PA_CHANNELS_MAX \<longrightarrow>
                  channel_values cv = replicate (unat (channels cv)) vol) \<and>
               lo \<le> max lo (min hi v) \<and> max lo (min hi v) \<le> hi \<and>
               (v < lo \<longrightarrow> max lo (min hi v) = lo) \<and>
               (hi < v \<longrightarrow> max lo (min hi v) = hi) \<and>
               (lo \<le> v \<and> v \<le> hi \<longrightarrow> max lo (min hi v) = v)))"
proof (intro conjI impI)
  assume "hi < lo"
  then show "changeVolume_set backend v lo hi = Inl UndefinedClamp"
    using assms
    by (simp add: changeVolume_set_def context_ready_def std_clamp_undefined split: prod.splits)
next
  assume range: "lo \<le> hi"
  define c where "c = max lo (min hi v)"
  have clamp: "std_clamp v lo hi = Some c"
    unfolding c_def using range by (rule std_clamp_defined)
  obtain vol where vol: "percentage_to_native c = Some vol"
    by (rule percentage_to_native_defined)
  note native = percentage_to_native_unat [OF vol]
  note cc = clamp_cases [OF range, of v, folded c_def]
  show "\<exists>vol cv.
          unat vol = unat (max lo (min hi v)) * 65536 div 100 \<and>
          percentage_to_native (max lo (min hi v)) = Some vol \<and>
          changeVolume_set backend v lo hi =
            Inr (backend,
                 (if volume_structure_usable backend then []
                  else [Log Debug ''Using default stereo volume structure''])
                 @ [Request (SetSinkVolumeByIndex (sink_idx backend) cv)]) \<and>
          channels cv =
            (if volume_structure_usable backend then channels (pa_volume backend)
             else 2) \<and>
          list_all (\<lambda>x. x = vol) (channel_values cv) \<and>
          (length (values_cv (pa_volume backend)) = PA_CHANNELS_MAX \<longrightarrow>
             channel_values cv = replicate (unat (channels cv)) vol) \<and>
          lo \<le> max lo (min hi v) \<and> max lo (min hi v) \<le> hi \<and>
          (v < lo \<longrightarrow> max lo (min hi v) = lo) \<and>
          (hi < v \<longrightarrow> max lo (min hi v) = hi) \<and>
          (lo \<le> v \<and> v \<le> hi \<longrightarrow> max lo (min hi v) = v)"
    unfolding c_def [symmetric]
  proof (cases "volume_structure_usable backend")
    case True
    let ?cv = "set_channels vol (pa_volume backend)"
    have call: "changeVolume_set backend v lo hi =
        Inr (backend, [Request (SetSinkVolumeByIndex (sink_idx backend) ?cv)])"
      using assms True vol clamp by (simp add: changeVolume_set_def context_ready_def)
    have uniform: "list_all (\<lambda>x. x = vol) (channel_values ?cv)"
      by (simp add: channel_values_set_channels list_all_iff)
    have count: "unat (channels (pa_volume backend)) \<le> PA_CHANNELS_MAX"
      using True by (simp add: volume_structure_usable_def pa_channels_valid_def)
    have full: "length (values_cv (pa_volume backend)) = PA_CHANNELS_MAX \<longrightarrow>
        channel_values ?cv = replicate (unat (channels ?cv)) vol"
      using count by (simp add: channel_values_set_channels)
    from vol native call uniform full True cc
    show "\<exists>vol cv.
          unat vol = unat c * 65536 div 100 \<and>
          percentage_to_native c = Some vol \<and>
          changeVolume_set backend v lo hi =
            Inr (backend,
                 (if volume_structure_usable backend then []
                  else [Log Debug ''Using default stereo volume structure''])
                 @ [Request (SetSinkVolumeByIndex (sink_idx backend) cv)]) \<and>
          channels cv =
            (if volume_structure_usable backend then channels (pa_volume backend)
             else 2) \<and>
          list_all (\<lambda>x. x = vol) (channel_values cv) \<and>
          (length (values_cv (pa_volume backend)) = PA_CHANNELS_MAX \<longrightarrow>
             channel_values cv = replicate (unat (channels cv)) vol) \<and>
          lo \<le> c \<and> c \<le> hi \<and>
          (v < lo \<longrightarrow> c = lo) \<and> (hi < v \<longrightarrow> c = hi) \<and> (lo \<le> v \<and> v \<le> hi \<longrightarrow> c = v)"
      by (intro exI [of _ vol] exI [of _ ?cv]) simp
  next
    case False
    let ?cv = "set_channels vol (pa_cvolume_init\<lparr>channels := 2\<rparr>)"
    have call: "changeVolume_set backend v lo hi =
        Inr (backend, [Log Debug ''Using default stereo volume structure'',
                       Request (SetSinkVolumeByIndex (sink_idx backend) ?cv)])"
      using assms False vol clamp by (simp add: changeVolume_set_def context_ready_def)
    from vol native call False cc
    show "\<exists>vol cv.
          unat vol = unat c * 65536 div 100 \<and>
          percentage_to_native c = Some vol \<and>
          changeVolume_set backend v lo hi =
            Inr (backend,
                 (if volume_structure_usable backend then []
                  else [Log Debug ''Using default stereo volume structure''])
                 @ [Request (SetSinkVolumeByIndex (sink_idx backend) cv)]) \<and>
          channels cv =
            (if volume_structure_usable backend then channels (pa_volume backend)
             else 2) \<and>
          list_all (\<lambda>x. x = vol) (channel_values cv) \<and>
          (length (values_cv (pa_volume backend)) = PA_CHANNELS_MAX \<longrightarrow>
             channel_values cv = replicate (unat (channels cv)) vol) \<and>
          lo \<le> c \<and> c \<le> hi \<and>
          (v < lo \<longrightarrow> c = lo) \<and> (hi < v \<longrightarrow> c = hi) \<and> (lo \<le> v \<and> v \<le> hi \<longrightarrow> c = v)"
      by (intro exI [of _ vol] exI [of _ ?cv])
        (simp add: channel_values_stereo_default replicate_2)
  qed
qed

subsection \<open>The relative step without a usable structure\<close>

text \<open>
  C7, with the ready connection that it needs. When the connection is ready and the last
  known structure is not usable, \<^verbatim>\<open>changeVolume(change_type, step, max_volume)\<close>
  submits, after a debug message, a structure with two channels that both hold the native
  value \<open>65536 p div 100\<close> of the current percentage \<open>p\<close>, whatever the direction, the
  step and the maximum.
\<close>

theorem changeVolume_step_bootstrap:
  assumes "context_ready backend" and "\<not> volume_structure_usable backend"
  shows "\<exists>vol cv.
           percentage_to_native (volume backend) = Some vol \<and>
           unat vol = unat (volume backend) * 65536 div 100 \<and>
           changeVolume_step backend change_type step max_volume =
             Inr (backend,
                  [Log Debug ''Using default stereo volume structure'',
                   Request (SetSinkVolumeByIndex (sink_idx backend) cv)]) \<and>
           channels cv = 2 \<and> channel_values cv = [vol, vol]"
proof -
  obtain vol where vol: "percentage_to_native (volume backend) = Some vol"
    by (rule percentage_to_native_defined)
  let ?cv = "set_channels vol (pa_cvolume_init\<lparr>channels := 2\<rparr>)"
  have "changeVolume_step backend change_type step max_volume =
      Inr (backend, [Log Debug ''Using default stereo volume structure'',
                     Request (SetSinkVolumeByIndex (sink_idx backend) ?cv)])"
    using assms vol by (simp add: changeVolume_step_def context_ready_def)
  with vol percentage_to_native_unat [OF vol] show ?thesis
    by (intro exI [of _ vol] exI [of _ ?cv]) (simp add: channel_values_stereo_default)
qed

text \<open>Two conversions, evaluated: 100 percent is 65536, 50 percent is 32768.\<close>

lemma percentage_to_native_100: "percentage_to_native 100 = Some 65536"
  by (simp add: percentage_to_native_def to_unsigned_def truncate_real_def double_mul_def
      to_double_def volume_tick_value round_to_precision_def binary_exponent_def
      round_half_even_def Let_def compute_bitlen)

lemma percentage_to_native_50: "percentage_to_native 50 = Some 32768"
  by (simp add: percentage_to_native_def to_unsigned_def truncate_real_def double_mul_def
      to_double_def volume_tick_value round_to_precision_def binary_exponent_def
      round_half_even_def Let_def compute_bitlen)


lemma example_backend_usable: "volume_structure_usable example_backend"
  by (simp add: volume_structure_usable_def pa_cvolume_valid_def pa_channels_valid_def
      channel_values_def example_backend_def PA_CHANNELS_MAX_def PA_VOLUME_MAX_def)

lemma pa_cvolume_init_unusable:
  "\<not> volume_structure_usable (backend\<lparr>pa_volume := pa_cvolume_init\<rparr>)"
  by (simp add: volume_structure_usable_def pa_cvolume_valid_def pa_channels_valid_def
      pa_cvolume_init_def)

lemma percentage_to_native_20: "percentage_to_native 20 = Some 13107"
  by (simp add: percentage_to_native_exact)

text \<open>
  On the example backend with the range 20 to 100: the target 150 is sent as 100 percent,
  the target 50 as itself and the target 5 as 20 percent, on both channels; with the range
  80 to 20 the call is undefined.
\<close>

theorem changeVolume_set_uniform_witness:
  "context_ready example_backend \<and> (20 :: 16 word) \<le> 100 \<and>
   (\<exists>cv. changeVolume_set example_backend 150 20 100 =
            Inr (example_backend, [Request (SetSinkVolumeByIndex 3 cv)]) \<and>
         channels cv = 2 \<and> channel_values cv = [65536, 65536]) \<and>
   (\<exists>cv. changeVolume_set example_backend 50 20 100 =
            Inr (example_backend, [Request (SetSinkVolumeByIndex 3 cv)]) \<and>
         channels cv = 2 \<and> channel_values cv = [32768, 32768]) \<and>
   (\<exists>cv. changeVolume_set example_backend 5 20 100 =
            Inr (example_backend, [Request (SetSinkVolumeByIndex 3 cv)]) \<and>
         channels cv = 2 \<and> channel_values cv = [13107, 13107]) \<and>
   changeVolume_set example_backend 50 80 20 = Inl UndefinedClamp"
proof -
  have ready: "context_ready example_backend"
    by (simp add: context_ready_def example_backend_def)
  have range: "(20 :: 16 word) \<le> 100" "(20 :: 16 word) < 80" by simp_all
  have clamp: "max 20 (min 100 150) = (100 :: 16 word)" "max 20 (min 100 50) = (50 :: 16 word)"
    "max 20 (min 100 5) = (20 :: 16 word)"
    by simp_all
  have len: "length (values_cv (pa_volume example_backend)) = PA_CHANNELS_MAX"
    by (simp add: example_backend_def PA_CHANNELS_MAX_def)
  have two: "channels (pa_volume example_backend) = 2" "sink_idx example_backend = 3"
    by (simp_all add: example_backend_def)
  note inst = changeVolume_set_uniform [OF ready]
  have above: "\<exists>cv. changeVolume_set example_backend 150 20 100 =
            Inr (example_backend, [Request (SetSinkVolumeByIndex 3 cv)]) \<and>
         channels cv = 2 \<and> channel_values cv = [65536, 65536]"
    using inst [of 100 20 150] range(1) len two example_backend_usable percentage_to_native_100
    by (auto simp add: clamp replicate_2)
  have inside: "\<exists>cv. changeVolume_set example_backend 50 20 100 =
            Inr (example_backend, [Request (SetSinkVolumeByIndex 3 cv)]) \<and>
         channels cv = 2 \<and> channel_values cv = [32768, 32768]"
    using inst [of 100 20 50] range(1) len two example_backend_usable percentage_to_native_50
    by (auto simp add: clamp replicate_2)
  have below: "\<exists>cv. changeVolume_set example_backend 5 20 100 =
            Inr (example_backend, [Request (SetSinkVolumeByIndex 3 cv)]) \<and>
         channels cv = 2 \<and> channel_values cv = [13107, 13107]"
    using inst [of 100 20 5] range(1) len two example_backend_usable percentage_to_native_20
    by (auto simp add: clamp replicate_2)
  have undef: "changeVolume_set example_backend 50 80 20 = Inl UndefinedClamp"
    using inst [of 20 80 50] range(2) by simp
  from ready range(1) above inside below undef show ?thesis by simp
qed

text \<open>
  The example backend without a structure, at 50 percent: a decrease by 1000 with the
  maximum 0 submits 32768 on two channels.
\<close>

theorem changeVolume_step_bootstrap_witness:
  "context_ready (example_backend\<lparr>pa_volume := pa_cvolume_init\<rparr>) \<and>
   \<not> volume_structure_usable (example_backend\<lparr>pa_volume := pa_cvolume_init\<rparr>) \<and>
   (\<exists>cv. changeVolume_step (example_backend\<lparr>pa_volume := pa_cvolume_init\<rparr>) Decrease 1000 0 =
            Inr (example_backend\<lparr>pa_volume := pa_cvolume_init\<rparr>,
                 [Log Debug ''Using default stereo volume structure'',
                  Request (SetSinkVolumeByIndex 3 cv)]) \<and>
         channels cv = 2 \<and> channel_values cv = [32768, 32768])"
proof -
  let ?b = "example_backend\<lparr>pa_volume := pa_cvolume_init\<rparr>"
  have ready: "context_ready ?b"
    by (simp add: context_ready_def example_backend_def)
  have vol: "volume ?b = 50" "sink_idx ?b = 3"
    by (simp_all add: example_backend_def)
  from changeVolume_step_bootstrap [OF ready pa_cvolume_init_unusable, of Decrease 1000 0]
  show ?thesis
    using ready vol pa_cvolume_init_unusable [of example_backend] percentage_to_native_50
    by auto
qed

text \<open>
  C7 as it is stated, without the ready connection: on a backend that is still connecting
  and has no usable structure, the call logs an error and submits nothing.
\<close>

theorem changeVolume_step_bootstrap_not_ready:
  "\<not> volume_structure_usable
       (example_backend\<lparr>context_pa := Some PA_CONTEXT_CONNECTING, pa_volume := pa_cvolume_init\<rparr>) \<and>
   changeVolume_step
       (example_backend\<lparr>context_pa := Some PA_CONTEXT_CONNECTING, pa_volume := pa_cvolume_init\<rparr>)
       Increase 5 100 =
     Inr (example_backend\<lparr>context_pa := Some PA_CONTEXT_CONNECTING, pa_volume := pa_cvolume_init\<rparr>,
          [Log Error ''PulseAudio context not ready''])"
  using pa_cvolume_init_unusable [of "example_backend\<lparr>context_pa := Some PA_CONTEXT_CONNECTING\<rparr>"]
  by (simp add: changeVolume_step_def)

subsection \<open>The relative step with a usable structure\<close>


text \<open>
  The increase caps every channel at \<^verbatim>\<open>PA_VOLUME_MAX\<close>; the decrease subtracts the
  amount from every channel and stops at zero.
\<close>

lemma list_all_increase:
  "list_all (\<lambda>x. x \<le> PA_VOLUME_MAX) (channel_values (increase_channels change v))"
  by (simp add: channel_values_increase_channels list_all_iff)





































subsection \<open>The percentage after an absolute set\<close>

text \<open>
  A 16-bit percentage converts to itself. A structure with one valid value in all its
  channels is valid and has that value as average. From the native value of a percentage
  the \<^verbatim>\<open>float\<close> computation of \<^verbatim>\<open>sinkInfoCb\<close> gets the percentage back.
\<close>

lemma to_unsigned_of_unat:
  fixes w :: "'a::len word"
  shows "to_unsigned (real (unat w)) = Some w"
proof -
  have "truncate_real (real (unat w)) = int (unat w)"
    by (simp add: truncate_real_def del: of_nat_unat)
  moreover have "int (unat w) < 2 ^ LENGTH('a)"
    using unsigned_less [of w, where ?'a = int] by simp
  moreover have "word_of_int (int (unat w)) = w" by simp
  ultimately show ?thesis
    by (simp add: to_unsigned_def Let_def del: of_nat_unat of_int_of_nat_eq)
qed

lemma pa_cvolume_uniform:
  assumes "pa_channels_valid (channels v)"
    and "unat (channels v) \<le> length (values_cv v)"
    and "vol \<le> PA_VOLUME_MAX"
  shows "pa_cvolume_valid (set_channels vol v)"
    and "pa_cvolume_avg (set_channels vol v) = vol"
proof -
  let ?n = "unat (channels v)"
  have vals: "channel_values (set_channels vol v) = replicate ?n vol"
    using assms(2) by (simp add: channel_values_set_channels min_absorb1)
  have pos: "0 < ?n"
    using assms(1) by (simp add: pa_channels_valid_def word_less_nat_alt)
  show valid: "pa_cvolume_valid (set_channels vol v)"
    using assms(1,3) by (simp add: pa_cvolume_valid_def vals list_all_iff)
  have "sum_list (map unat (replicate ?n vol)) = ?n * unat vol"
    by (simp add: sum_list_replicate)
  then have "sum_list (map unat (channel_values (set_channels vol v))) div ?n = unat vol"
    using pos by (simp add: vals)
  then show "pa_cvolume_avg (set_channels vol v) = vol"
    using valid by (simp add: pa_cvolume_avg_def)
qed

lemma volume_percentage_round_trip:
  assumes "percentage_to_native v = Some vol" and "pa_cvolume_avg cv = vol"
  shows "volume_percentage cv = real (unat v)"
proof -
  obtain vol' where v': "percentage_to_native v = Some vol'"
    and hi: "real (unat vol') \<le> real (unat v) * (16384 / 25) + 1 / 1000000"
    and lo: "real (unat v) * (16384 / 25) - 1 - 1 / 1000000 < real (unat vol')"
    by (rule percentage_to_native_defined)
  from v' assms(1) have "vol' = vol" by simp
  with float_percentage_of_native [OF unat_percent_bound lo hi]
  have "c_round (float_mul (float_div (to_float (real (unat vol))) 65536) 100) = real (unat v)"
    by simp
  then show ?thesis
    unfolding volume_percentage_def Let_def assms(2) to_float_norm .
qed

lemma stereo_default_valid:
  "pa_channels_valid (channels (pa_cvolume_init\<lparr>channels := 2\<rparr>))"
  "unat (channels (pa_cvolume_init\<lparr>channels := 2\<rparr>))
     \<le> length (values_cv (pa_cvolume_init\<lparr>channels := 2\<rparr>))"
  by (simp_all add: pa_channels_valid_def pa_cvolume_init_def PA_CHANNELS_MAX_def)

text \<open>
  C6. Let the connection be ready, \<open>min \<le> max\<close>, and the array of the last known
  structure have its \<^verbatim>\<open>PA_CHANNELS_MAX\<close> entries. The structure that
  \<^verbatim>\<open>changeVolume(volume, min, max)\<close> submits is valid, and the percentage that
  \<^verbatim>\<open>sinkInfoCb\<close> computes from it is the clamped target
  \<open>c = max min (min max volume)\<close> itself: \<open>min\<close> for a target below the range, \<open>max\<close>
  for one above, the target inside. It lies in \<open>[min, max]\<close>, and the round trip loses
  nothing, so the percentage is within 1 of the clamped target. When the server reports
  the current default sink, not ignored, with that structure, \<^verbatim>\<open>sinkInfoCb\<close> stores
  this percentage.
\<close>

theorem changeVolume_set_round_trip:
  assumes "context_ready backend" and "lo \<le> hi"
    and "length (values_cv (pa_volume backend)) = PA_CHANNELS_MAX"
  shows "\<exists>cv pct.
           changeVolume_set backend v lo hi =
             Inr (backend,
                  (if volume_structure_usable backend then []
                   else [Log Debug ''Using default stereo volume structure''])
                  @ [Request (SetSinkVolumeByIndex (sink_idx backend) cv)]) \<and>
           pa_cvolume_valid cv \<and>
           to_unsigned (volume_percentage cv) = Some pct \<and>
           pct = max lo (min hi v) \<and>
           \<bar>int (unat pct) - int (unat (max lo (min hi v)))\<bar> \<le> 1 \<and>
           lo \<le> pct \<and> pct \<le> hi \<and>
           (v < lo \<longrightarrow> pct = lo) \<and> (hi < v \<longrightarrow> pct = hi) \<and>
           (lo \<le> v \<and> v \<le> hi \<longrightarrow> pct = v) \<and>
           (\<forall>i. si_volume i = cv \<and> si_description i \<notin> set (ignored_sinks backend) \<and>
                si_name i = default_sink_name backend \<and>
                si_name i = current_sink_name backend \<longrightarrow>
                (\<exists>backend' effs. sinkInfoCb backend (Some i) = Inr (backend', effs) \<and>
                                  volume backend' = pct))"
proof -
  define c where "c = max lo (min hi v)"
  have clamp: "std_clamp v lo hi = Some c"
    unfolding c_def using assms(2) by (rule std_clamp_defined)
  obtain vol where vol: "percentage_to_native c = Some vol" and le: "vol \<le> PA_VOLUME_MAX"
    by (rule percentage_to_native_defined)
  define cv0 where "cv0 =
    (if volume_structure_usable backend then pa_volume backend
     else pa_cvolume_init\<lparr>channels := 2\<rparr>)"
  define cv where "cv = set_channels vol cv0"
  have ready: "context_pa backend = Some PA_CONTEXT_READY"
    using assms(1) by (simp add: context_ready_def)
  have call: "changeVolume_set backend v lo hi =
      Inr (backend,
           (if volume_structure_usable backend then []
            else [Log Debug ''Using default stereo volume structure''])
           @ [Request (SetSinkVolumeByIndex (sink_idx backend) cv)])"
    using ready vol clamp
    by (simp add: changeVolume_set_def cv_def cv0_def)
  have cv0: "pa_channels_valid (channels cv0)" "unat (channels cv0) \<le> length (values_cv cv0)"
    using assms(3) stereo_default_valid
    by (auto simp add: cv0_def volume_structure_usable_def pa_channels_valid_def)
  note uni = pa_cvolume_uniform [OF cv0 le, folded cv_def]
  have pct: "to_unsigned (volume_percentage cv) = Some c"
    using volume_percentage_round_trip [OF vol uni(2)] to_unsigned_of_unat [of c]
    by simp
  note cc = clamp_cases [OF assms(2), of v, folded c_def]
  have echo: "\<exists>backend' effs. sinkInfoCb backend (Some i) = Inr (backend', effs) \<and>
                                volume backend' = c"
    if "si_volume i = cv" "si_description i \<notin> set (ignored_sinks backend)"
       "si_name i = default_sink_name backend" "si_name i = current_sink_name backend"
    for i
    using that uni(1) pct by (simp add: sinkInfoCb_def Let_def)
  show ?thesis
    unfolding c_def [symmetric]
  proof (intro exI [of _ cv] exI [of _ c] conjI)
    show "\<forall>i. si_volume i = cv \<and> si_description i \<notin> set (ignored_sinks backend) \<and>
              si_name i = default_sink_name backend \<and>
              si_name i = current_sink_name backend \<longrightarrow>
              (\<exists>backend' effs. sinkInfoCb backend (Some i) = Inr (backend', effs) \<and>
                                volume backend' = c)"
      using echo by blast
  qed (use call uni(1) pct cc in simp_all)
qed

text \<open>
  On the example backend with the range 20 to 100, the targets 150, 50 and 5 come back as
  100, 50 and 20.
\<close>

theorem changeVolume_set_round_trip_witness:
  "context_ready example_backend \<and> (20 :: 16 word) \<le> 100 \<and>
   length (values_cv (pa_volume example_backend)) = PA_CHANNELS_MAX \<and>
   (\<exists>cv. changeVolume_set example_backend 150 20 100 =
            Inr (example_backend, [Request (SetSinkVolumeByIndex 3 cv)]) \<and>
         to_unsigned (volume_percentage cv) = Some (100 :: 16 word)) \<and>
   (\<exists>cv. changeVolume_set example_backend 50 20 100 =
            Inr (example_backend, [Request (SetSinkVolumeByIndex 3 cv)]) \<and>
         to_unsigned (volume_percentage cv) = Some (50 :: 16 word)) \<and>
   (\<exists>cv. changeVolume_set example_backend 5 20 100 =
            Inr (example_backend, [Request (SetSinkVolumeByIndex 3 cv)]) \<and>
         to_unsigned (volume_percentage cv) = Some (20 :: 16 word))"
proof -
  have ready: "context_ready example_backend"
    by (simp add: context_ready_def example_backend_def)
  have range: "(20 :: 16 word) \<le> 100" by simp
  have len: "length (values_cv (pa_volume example_backend)) = PA_CHANNELS_MAX"
    by (simp add: example_backend_def PA_CHANNELS_MAX_def)
  have idx: "sink_idx example_backend = 3"
    by (simp add: example_backend_def)
  note inst = changeVolume_set_round_trip [OF ready range len]
  have above: "\<exists>cv. changeVolume_set example_backend 150 20 100 =
            Inr (example_backend, [Request (SetSinkVolumeByIndex 3 cv)]) \<and>
         to_unsigned (volume_percentage cv) = Some (100 :: 16 word)"
    using inst [of 150] example_backend_usable by (auto simp add: idx)
  have inside: "\<exists>cv. changeVolume_set example_backend 50 20 100 =
            Inr (example_backend, [Request (SetSinkVolumeByIndex 3 cv)]) \<and>
         to_unsigned (volume_percentage cv) = Some (50 :: 16 word)"
    using inst [of 50] example_backend_usable by (auto simp add: idx)
  have below: "\<exists>cv. changeVolume_set example_backend 5 20 100 =
            Inr (example_backend, [Request (SetSinkVolumeByIndex 3 cv)]) \<and>
         to_unsigned (volume_percentage cv) = Some (20 :: 16 word)"
    using inst [of 5] example_backend_usable by (auto simp add: idx)
  from ready range len above inside below show ?thesis by simp
qed

end
